theory Spec2Isabelle
  imports Complex_Main
begin

section \<open>Values and errors\<close>

text \<open>
  The emission module of pschitt computes on Python floats and on numpy arrays of
  float64. A finite float is modelled by a \<open>real\<close> and a one-dimensional array by a
  \<open>real list\<close>: the rounding of finite results is outside the model. Two effects of
  the arithmetic are inside it. HOL's \<open>x / 0\<close> is \<open>0\<close>, whereas Python's true
  division of a float by zero raises, so division is a fallible operation. And numpy's
  \<open>np.exp\<close> overflows to \<open>inf\<close> without raising, after which \<open>inf * 0\<close> is
  \<open>nan\<close>: the results of \<open>angular_profile_exp_falloff\<close> are therefore values of
  \<open>float64\<close>, a finite real or one of the three special values.
\<close>

datatype error = ZeroDivisionError | ValueError | ExternalError

datatype float64 = Finite real | PosInf | NegInf | NaN

definition overflow_threshold :: real where
  \<comment> \<open>The largest finite float64 is \<open>2^1024 - 2^971\<close>; under round-to-nearest an exact
      result at or beyond half a unit in the last place above it becomes an infinity.\<close>
  "overflow_threshold = 2 ^ 1024 - 2 ^ 970"

definition rounded :: "real \<Rightarrow> float64" where
  \<comment> \<open>The float64 that holds an exact result: only overflow is modelled.\<close>
  "rounded x =
     (if overflow_threshold \<le> x then PosInf
      else if x \<le> - overflow_threshold then NegInf
      else Finite x)"

fun float64_add :: "float64 \<Rightarrow> float64 \<Rightarrow> float64" where
  "float64_add (Finite x) (Finite y) = rounded (x + y)"
| "float64_add (Finite x) PosInf = PosInf"
| "float64_add (Finite x) NegInf = NegInf"
| "float64_add PosInf (Finite y) = PosInf"
| "float64_add NegInf (Finite y) = NegInf"
| "float64_add PosInf PosInf = PosInf"
| "float64_add NegInf NegInf = NegInf"
| "float64_add PosInf NegInf = NaN"
| "float64_add NegInf PosInf = NaN"
| "float64_add NaN v = NaN"
| "float64_add u NaN = NaN"

fun float64_mul :: "float64 \<Rightarrow> float64 \<Rightarrow> float64" where
  "float64_mul (Finite x) (Finite y) = rounded (x * y)"
| "float64_mul (Finite x) PosInf = (if x = 0 then NaN else if 0 < x then PosInf else NegInf)"
| "float64_mul (Finite x) NegInf = (if x = 0 then NaN else if 0 < x then NegInf else PosInf)"
| "float64_mul PosInf (Finite y) = (if y = 0 then NaN else if 0 < y then PosInf else NegInf)"
| "float64_mul NegInf (Finite y) = (if y = 0 then NaN else if 0 < y then NegInf else PosInf)"
| "float64_mul PosInf PosInf = PosInf"
| "float64_mul NegInf NegInf = PosInf"
| "float64_mul PosInf NegInf = NegInf"
| "float64_mul NegInf PosInf = NegInf"
| "float64_mul NaN v = NaN"
| "float64_mul u NaN = NaN"

fun np_exp :: "float64 \<Rightarrow> float64" where
  "np_exp (Finite x) = rounded (exp x)"
| "np_exp PosInf = PosInf"
| "np_exp NegInf = Finite 0"
| "np_exp NaN = NaN"

definition truediv :: "real \<Rightarrow> real \<Rightarrow> error + real" where
  \<comment> \<open>Python's \<open>a / b\<close> on floats.\<close>
  "truediv a b = (if b = 0 then Inl ZeroDivisionError else Inr (a / b))"

definition default_arg :: "'a \<Rightarrow> 'a option \<Rightarrow> 'a" where
  \<comment> \<open>A keyword parameter with a default: \<open>None\<close> is the omitted argument.\<close>
  "default_arg d v = (case v of None \<Rightarrow> d | Some x \<Rightarrow> x)"

section \<open>Transmission and emission profiles\<close>

text \<open>
  The source's parameter \<open>dist\<close> is written \<open>x\<close> below, \<open>dist\<close> being the
  metric of \<open>Complex_Main\<close>.
\<close>

definition transmission :: "real list \<Rightarrow> real list" where
  \<comment> \<open>\<open>np.ones(len(distances))\<close>\<close>
  "transmission distances = replicate (length distances) 1"

definition constant_profile :: "real \<Rightarrow> int" where
  "constant_profile x = 1"

definition emission_profile :: "real \<Rightarrow> int" where
  "emission_profile x = constant_profile x"

definition power_law_profile :: "real \<Rightarrow> real option \<Rightarrow> error + real" where
  \<comment> \<open>\<open>1./(1. + dist)**2\<close>; the parameter \<open>alpha=2\<close> does not occur in the body.\<close>
  "power_law_profile x alpha = truediv 1 ((1 + x)\<^sup>2)"

definition ground_profile_heaviside :: "real \<Rightarrow> real option \<Rightarrow> real" where
  \<comment> \<open>\<open>(dist<=shift) * 1. + (dist>shift) * 0.\<close> with \<open>shift=120\<close> by default.\<close>
  "ground_profile_heaviside x shift_arg =
     (let shift = default_arg 120 shift_arg
      in of_bool (x \<le> shift) * 1 + of_bool (x > shift) * 0)"

definition ground_profile_1 :: "real \<Rightarrow> real option \<Rightarrow> error + real" where
  \<comment> \<open>\<open>(dist<=shift) * 1. + (dist>shift) * 1./(dist - shift)\<close>: in Python \<open>*\<close> and
      \<open>/\<close> associate to the left, so the quotient is
      \<open>((dist>shift) * 1.) / (dist - shift)\<close> and is computed on every input.\<close>
  "ground_profile_1 x shift_arg =
     (let shift = default_arg 120 shift_arg;
          flat = of_bool (x \<le> shift) * 1
      in case truediv (of_bool (x > shift) * 1) (x - shift) of
           Inl e \<Rightarrow> Inl e
         | Inr tail \<Rightarrow> Inr (flat + tail))"

definition angular_profile_heaviside :: "real list \<Rightarrow> real \<Rightarrow> int list" where
  \<comment> \<open>\<open>1 * (angles <= limit)\<close>, element by element.\<close>
  "angular_profile_heaviside angles limit = map (\<lambda>a. 1 * of_bool (a \<le> limit)) angles"

definition angular_profile_exp_falloff :: "real list \<Rightarrow> real \<Rightarrow> real \<Rightarrow> float64 list" where
  \<comment> \<open>\<open>1 * (angles < break_angle) + np.exp(-alpha*(angles - break_angle)) * (angles >= break_angle)\<close>:
      the exponential is computed for every angle, then multiplied by the boolean.\<close>
  "angular_profile_exp_falloff angles break_angle alpha =
     map (\<lambda>a. float64_add
                (Finite (of_int (1 * of_bool (a < break_angle))))
                (float64_mul
                   (np_exp (float64_mul (Finite (- alpha)) (rounded (a - break_angle))))
                   (Finite (of_bool (a \<ge> break_angle))))) angles"

section \<open>The objects of a masking call\<close>

type_synonym vec3 = "real \<times> real \<times> real"

fun vsub :: "vec3 \<Rightarrow> vec3 \<Rightarrow> vec3" where
  \<comment> \<open>numpy's \<open>particle - tel.mirror_center\<close> on two points\<close>
  "vsub (a, b, c) (u, v, w) = (a - u, b - v, c - w)"

text \<open>
  Modelled from the spec: the shower and telescope classes are declared outside the
  emission module. Their fields are those of the data model; the masking engine reads
  \<open>particles\<close>, \<open>alt\<close>, \<open>az\<close> and \<open>mirror_center\<close>.
\<close>

record shower =
  particles :: "vec3 list"
  alt :: real
  az :: real
  impact_point :: vec3

record telescope =
  mirror_center :: vec3
  camera_center :: vec3
  normal :: vec3
  pixel_tab :: "(real \<times> real) list"
  signal_hist :: "real list"
  tel_id :: nat

text \<open>
  Modelled from the spec: the three operations of the geometry module \<open>geo\<close> that the
  engine calls. The module is not part of the emission code, so the operations are
  parameters; each may fail, and none of them writes to its arguments.
\<close>

record geometry =
  distance_shower_camera_center :: "shower \<Rightarrow> telescope \<Rightarrow> error + real list"
  altaz_to_normal :: "real \<Rightarrow> real \<Rightarrow> error + vec3"
  angle :: "vec3 \<Rightarrow> vec3 \<Rightarrow> error + real"

text \<open>
  What a profile returns to the engine: a scalar (\<open>constant_profile\<close> returns the
  number 1 whatever it is given) or an array.
\<close>

datatype ndarray = Scalar real | Array "real list"

definition broadcast :: "('a \<Rightarrow> 'b \<Rightarrow> 'c) \<Rightarrow> 'a list \<Rightarrow> 'b list \<Rightarrow> error + 'c list" where
  \<comment> \<open>numpy's rule for a binary operation on arrays of shapes (m,) and (n,): equal
      lengths pair up, a length of one is stretched, anything else raises ValueError.\<close>
  "broadcast f xs ys =
     (if length xs = length ys then Inr (map2 f xs ys)
      else if length xs = 1 then Inr (map (f (hd xs)) ys)
      else if length ys = 1 then Inr (map (\<lambda>x. f x (hd ys)) xs)
      else Inl ValueError)"

fun np_multiply :: "real list \<Rightarrow> ndarray \<Rightarrow> error + real list" where
  "np_multiply xs (Scalar c) = Inr (map (\<lambda>x. x * c) xs)"
| "np_multiply xs (Array ys) = broadcast (\<lambda>x y. x * y) xs ys"

definition np_greater :: "real list \<Rightarrow> real list \<Rightarrow> error + bool list" where
  "np_greater xs ys = broadcast (\<lambda>x y. x > y) xs ys"

text \<open>
  The ambient generator \<open>np.random\<close> is the sequence of uniform draws it has yet to
  produce; \<open>rand n\<close> hands out the next \<open>n\<close> of them and moves on.
\<close>

type_synonym rng = "nat \<Rightarrow> real"

definition rand :: "nat \<Rightarrow> rng \<Rightarrow> real list \<times> rng" where
  "rand n g = (map g [0..<n], \<lambda>i. g (n + i))"

text \<open>
  The state a call runs in: the two objects the caller owns and passes by reference,
  and the generator.
\<close>

record state =
  tel :: telescope
  shower :: shower
  random_state :: rng

section \<open>The masking engine\<close>

fun angles_of :: "geometry \<Rightarrow> vec3 \<Rightarrow> telescope \<Rightarrow> vec3 list \<Rightarrow> error + real list" where
  \<comment> \<open>\<open>[geo.angle(shower_direction, particle - tel.mirror_center) for particle in shower.particles]\<close>;
      the first failing call ends the comprehension.\<close>
  "angles_of geo shower_direction t [] = Inr []"
| "angles_of geo shower_direction t (particle # rest) =
     (case angle geo shower_direction (vsub particle (mirror_center t)) of
        Inl e \<Rightarrow> Inl e
      | Inr a \<Rightarrow>
          (case angles_of geo shower_direction t rest of
             Inl e \<Rightarrow> Inl e
           | Inr as \<Rightarrow> Inr (a # as)))"

definition mask_transmitted_particles ::
  "geometry \<Rightarrow> (real list \<Rightarrow> 'p \<Rightarrow> error + ndarray) \<Rightarrow> 'p \<Rightarrow> state
     \<Rightarrow> (error + bool list) \<times> state" where
  "mask_transmitted_particles geo angular_profile args s =
     (case distance_shower_camera_center geo (shower s) (tel s) of
        Inl e \<Rightarrow> (Inl e, s)
      | Inr particle_distances \<Rightarrow>
     let transmissions = transmission particle_distances in
     (case altaz_to_normal geo (alt (shower s)) (az (shower s)) of
        Inl e \<Rightarrow> (Inl e, s)
      | Inr shower_direction \<Rightarrow>
     (case angles_of geo shower_direction (tel s) (particles (shower s)) of
        Inl e \<Rightarrow> (Inl e, s)
      | Inr angles \<Rightarrow>
     (case angular_profile angles args of
        Inl e \<Rightarrow> (Inl e, s)
      | Inr profile \<Rightarrow>
     (case np_multiply transmissions profile of
        Inl e \<Rightarrow> (Inl e, s)
      | Inr p_trans \<Rightarrow>
     let (draws, g) = rand (length (particles (shower s))) (random_state s);
         s' = s\<lparr>random_state := g\<rparr>
     in (case np_greater p_trans draws of
           Inl e \<Rightarrow> (Inl e, s')
         | Inr bits \<Rightarrow> (Inr bits, s')))))))"

text \<open>The profile's value for the particle of index \<open>i\<close>, and the shapes that fit \<open>n\<close> particles.\<close>

fun profile_at :: "ndarray \<Rightarrow> nat \<Rightarrow> real" where
  "profile_at (Scalar c) i = c"
| "profile_at (Array ys) i = ys ! i"

fun fits :: "nat \<Rightarrow> ndarray \<Rightarrow> bool" where
  "fits n (Scalar c) = True"
| "fits n (Array ys) = (length ys = n)"

section \<open>Properties of the transmission model\<close>

text \<open>
  C4: for every sequence of distances, \<open>transmission\<close> returns a sequence of the same
  length and in the same order whose every element is exactly 1, hence within [0, 1].
\<close>

theorem transmission_all_ones:
  "length (transmission distances) = length distances
   \<and> transmission distances = map (\<lambda>d. 1) distances
   \<and> (\<forall>i < length distances. transmission distances ! i = 1
          \<and> 0 \<le> transmission distances ! i \<and> transmission distances ! i \<le> 1)"
  by (simp add: transmission_def map_replicate_const)

theorem transmission_all_ones_witness:
  "transmission [0, 35/10, 120] = [1, 1, 1] \<and> transmission [0, 35/10, 120] ! 2 = 1"
  using transmission_all_ones [of "[0, 35/10, 120]"] by simp

section \<open>Properties of the emission profiles\<close>

text \<open>
  C2: the claim is that \<open>power_law_profile(angle, alpha)\<close> equals \<open>1 / (1 + angle)^alpha\<close>.
  The body of the function never reads \<open>alpha\<close>: at angle 1 and alpha 3 it returns
  1/4, where the power law with index 3 gives 1/8.
\<close>

theorem power_law_profile_alpha_3:
  "power_law_profile 1 (Some 3) = Inr (1 / 4) \<and> (1 / 4 :: real) \<noteq> 1 / (1 + 1) powr 3"
  by (simp add: power_law_profile_def truediv_def)

text \<open>
  C3: the claim is that \<open>ground_profile_1\<close> returns 1 at an input equal to the shift.
  The quotient of the second summand is evaluated for every input, and at the shift its
  divisor is zero: the call raises ZeroDivisionError, with the default shift and with
  one that the caller gives.
\<close>

theorem ground_profile_1_at_shift:
  "ground_profile_1 120 None = Inl ZeroDivisionError
   \<and> ground_profile_1 120 (Some 120) = Inl ZeroDivisionError
   \<and> ground_profile_1 (5 / 2) (Some (5 / 2)) = Inl ZeroDivisionError"
  by (simp add: ground_profile_1_def truediv_def default_arg_def)

lemma overflow_threshold_gt: "1 < overflow_threshold" "1000 < overflow_threshold"
  by (simp_all add: overflow_threshold_def)

lemma overflow_threshold_le: "overflow_threshold \<le> 2 ^ 1024"
  by (simp add: overflow_threshold_def)

lemma rounded_finite:
  "- overflow_threshold < x \<Longrightarrow> x < overflow_threshold \<Longrightarrow> rounded x = Finite x"
  by (simp add: rounded_def)

lemma exp_1000_overflows: "overflow_threshold \<le> exp (1000 :: real)"
proof -
  have e: "(5 / 2 :: real) \<le> exp 1"
    using exp_lower_Taylor_quadratic [of "1 :: real"] by simp
  have q: "(2 :: real) ^ 5 \<le> (5 / 2) ^ 4" by (simp add: power_divide)
  have "(2 :: real) ^ 1024 \<le> 2 ^ (5 * 250)"
    by (rule power_increasing) simp_all
  also have "\<dots> = ((2 :: real) ^ 5) ^ 250" by (rule power_mult)
  also have "\<dots> \<le> (((5 / 2) :: real) ^ 4) ^ 250"
    using q by (rule power_mono) simp
  also have "\<dots> = ((5 / 2) :: real) ^ (4 * 250)" by (rule power_mult [symmetric])
  also have "\<dots> \<le> exp (1 :: real) ^ (4 * 250)"
    using e by (rule power_mono) simp
  also have "\<dots> = exp (of_nat (4 * 250) * (1 :: real))"
    by (rule exp_of_nat_mult [symmetric])
  also have "of_nat (4 * 250) * (1 :: real) = 1000" by simp
  finally have "(2 :: real) ^ 1024 \<le> exp 1000" .
  with overflow_threshold_le show ?thesis by (rule order_trans)
qed

text \<open>Away from overflow the profile is the one its docstring describes.\<close>

lemma angular_profile_exp_falloff_in_range:
  assumes "\<bar>a - break_angle\<bar> < overflow_threshold"
    and "\<bar>alpha * (a - break_angle)\<bar> < overflow_threshold"
    and "exp (- alpha * (a - break_angle)) < overflow_threshold"
  shows "angular_profile_exp_falloff [a] break_angle alpha =
           [Finite (if a < break_angle then 1 else exp (- alpha * (a - break_angle)))]"
proof -
  let ?e = "exp (- (alpha * (a - break_angle)))"
  have r1: "rounded (a - break_angle) = Finite (a - break_angle)"
    using assms(1) by (intro rounded_finite) linarith+
  have r2: "rounded (- (alpha * (a - break_angle))) = Finite (- (alpha * (a - break_angle)))"
    using assms(2) by (intro rounded_finite) linarith+
  have p: "0 < ?e" by simp
  have b: "?e < overflow_threshold" using assms(3) by simp
  have r3: "rounded ?e = Finite ?e"
    using b p overflow_threshold_gt(1) by (intro rounded_finite) linarith+
  have r0: "rounded 0 = Finite 0" and r1': "rounded 1 = Finite 1"
    using overflow_threshold_gt(1) by (simp_all add: rounded_def)
  show ?thesis
  proof (cases "a < break_angle")
    case True
    then show ?thesis
      by (simp add: angular_profile_exp_falloff_def r1 r2 r3 r0 r1')
  next
    case False
    then show ?thesis
      by (simp add: angular_profile_exp_falloff_def r1 r2 r3)
  qed
qed

text \<open>
  C5: the claim is that \<open>angular_profile_exp_falloff\<close> returns 1 for every angle
  strictly below the break angle, whatever \<open>break_angle\<close> and \<open>alpha\<close> are. The
  exponential is computed for every angle before the boolean masks it: at angle 0, break
  angle 1 and alpha 1000 it is \<open>np.exp(1000)\<close>, which overflows to \<open>inf\<close>, the
  masked term is \<open>inf * False\<close>, and the call returns \<open>nan\<close>.
\<close>

theorem angular_profile_exp_falloff_overflow:
  "angular_profile_exp_falloff [0] 1 1000 = [NaN]"
proof -
  have "rounded (0 - 1) = Finite (- 1)"
    using overflow_threshold_gt(1) by (simp add: rounded_def)
  moreover have "rounded (- 1000 * - 1) = Finite 1000"
    using overflow_threshold_gt(2) by (simp add: rounded_def)
  moreover have "rounded (exp 1000) = PosInf"
    using exp_1000_overflows by (simp add: rounded_def)
  ultimately show ?thesis
    by (simp add: angular_profile_exp_falloff_def)
qed

text \<open>
  C6: the two step profiles return exactly 1 for an input at or below the threshold
  and exactly 0 above it; the ground profile's threshold is 120 when the caller gives
  none; an input equal to the threshold yields 1.
\<close>

theorem heaviside_profiles:
  "ground_profile_heaviside x (Some shift) = (if x \<le> shift then 1 else 0)
   \<and> ground_profile_heaviside x None = (if x \<le> 120 then 1 else 0)
   \<and> angular_profile_heaviside angles limit = map (\<lambda>a. if a \<le> limit then 1 else 0) angles
   \<and> ground_profile_heaviside shift (Some shift) = 1
   \<and> angular_profile_heaviside [limit] limit = [1]"
  by (simp add: ground_profile_heaviside_def angular_profile_heaviside_def default_arg_def)

theorem heaviside_profiles_witness:
  "ground_profile_heaviside 120 None = 1 \<and> ground_profile_heaviside 121 None = 0
   \<and> ground_profile_heaviside 7 (Some 5) = 0
   \<and> angular_profile_heaviside [0, 1, 2] 1 = [1, 1, 0]"
  using heaviside_profiles [of 120 5 "[0, 1, 2]" 1] heaviside_profiles [of 121 5 "[]" 0]
    heaviside_profiles [of 7 5 "[]" 0]
  by simp

text \<open>
  C7: just above the shift, at any input with \<open>0 < input - shift < 1\<close>,
  \<open>ground_profile_1\<close> returns a value strictly greater than 1; nothing clamps it.
\<close>

theorem ground_profile_1_over_unity:
  "0 < x - shift \<Longrightarrow> x - shift < 1 \<Longrightarrow>
     \<exists>p. ground_profile_1 x (Some shift) = Inr p \<and> 1 < p \<and> p = 1 / (x - shift)"
  by (simp add: ground_profile_1_def truediv_def default_arg_def)

theorem ground_profile_1_over_unity_witness:
  "(0 :: real) < 241 / 2 - 120 \<and> (241 / 2 - 120 :: real) < 1
   \<and> ground_profile_1 (241 / 2) (Some 120) = Inr 2"
proof -
  have h1: "(0 :: real) < 241 / 2 - 120" by simp
  have h2: "(241 / 2 - 120 :: real) < 1" by simp
  from ground_profile_1_over_unity [OF h1 h2] show ?thesis by auto
qed

text \<open>
  C10: the result of \<open>power_law_profile\<close> does not depend on its \<open>alpha\<close> argument,
  given or omitted: it is \<open>1 / (1 + dist)^2\<close> wherever that quotient is defined, and the
  same ZeroDivisionError at \<open>dist = -1\<close>.
\<close>

theorem power_law_profile_alpha_independent:
  "power_law_profile x alpha1 = power_law_profile x alpha2
   \<and> (x \<noteq> - 1 \<longrightarrow> power_law_profile x alpha1 = Inr (1 / (1 + x)\<^sup>2))
   \<and> (x = - 1 \<longrightarrow> power_law_profile x alpha1 = Inl ZeroDivisionError)"
  by (auto simp add: power_law_profile_def truediv_def)

theorem power_law_profile_alpha_independent_witness:
  "power_law_profile 1 (Some 3) = power_law_profile 1 None
   \<and> power_law_profile 1 (Some 3) = Inr (1 / 4)"
  using power_law_profile_alpha_independent [of 1 "Some 3" None] by auto

section \<open>Properties of the masking engine\<close>

lemma angles_of_length:
  "angles_of geo d t ps = Inr angles \<Longrightarrow> length angles = length ps"
  by (induction ps arbitrary: angles) (auto split: sum.splits)

lemma broadcast_same_length:
  "length xs = length ys \<Longrightarrow> broadcast f xs ys = Inr (map2 f xs ys)"
  unfolding broadcast_def by (rule if_P)

lemma np_multiply_fits:
  assumes "fits (length xs) prof"
  shows "np_multiply xs prof = Inr (map (\<lambda>i. xs ! i * profile_at prof i) [0..<length xs])"
proof (cases prof)
  case (Scalar c)
  have "map (\<lambda>x. x * c) xs = map (\<lambda>i. xs ! i * c) [0..<length xs]"
    by (rule nth_equalityI) simp_all
  then show ?thesis using Scalar by simp
next
  case (Array ys)
  with assms have l: "length xs = length ys" by simp
  have "map2 (\<lambda>x y. x * y) xs ys = map (\<lambda>i. xs ! i * ys ! i) [0..<length xs]"
    using l by (intro nth_equalityI) simp_all
  then show ?thesis using Array l by (simp add: broadcast_same_length)
qed

lemma np_greater_same_length:
  assumes "length xs = length ys"
  shows "np_greater xs ys = Inr (map (\<lambda>i. xs ! i > ys ! i) [0..<length xs])"
proof -
  have "map2 (\<lambda>x y. x > y) xs ys = map (\<lambda>i. xs ! i > ys ! i) [0..<length xs]"
    using assms by (intro nth_equalityI) simp_all
  then show ?thesis using assms by (simp add: np_greater_def broadcast_same_length)
qed

lemma rand_fst: "fst (rand n g) = map g [0..<n]"
  by (simp add: rand_def)

text \<open>
  Everything before the draw reads the telescope and the shower only. Either that part
  fails, and the call returns its error in an unchanged state, or it yields the combined
  probabilities, which are then compared with the next draws of the generator.
\<close>

lemma mask_transmitted_particles_shape:
  "\<exists>r. \<forall>s'. tel s' = tel s \<longrightarrow> shower s' = shower s \<longrightarrow>
     mask_transmitted_particles geo angular_profile args s' =
       (case r of
          Inl e \<Rightarrow> (Inl e, s')
        | Inr p_trans \<Rightarrow>
            (np_greater p_trans (fst (rand (length (particles (shower s))) (random_state s'))),
             s'\<lparr>random_state := snd (rand (length (particles (shower s))) (random_state s'))\<rparr>))"
proof (cases "distance_shower_camera_center geo (shower s) (tel s)")
  case (Inl e)
  then have "\<forall>s'. tel s' = tel s \<longrightarrow> shower s' = shower s \<longrightarrow>
      mask_transmitted_particles geo angular_profile args s' = (Inl e, s')"
    by (simp add: mask_transmitted_particles_def)
  then show ?thesis by (intro exI [of _ "Inl e"]) simp
next
  case d: (Inr ds)
  show ?thesis
  proof (cases "altaz_to_normal geo (alt (shower s)) (az (shower s))")
    case (Inl e)
    with d have "\<forall>s'. tel s' = tel s \<longrightarrow> shower s' = shower s \<longrightarrow>
        mask_transmitted_particles geo angular_profile args s' = (Inl e, s')"
      by (simp add: mask_transmitted_particles_def)
    then show ?thesis by (intro exI [of _ "Inl e"]) simp
  next
    case n: (Inr dir)
    show ?thesis
    proof (cases "angles_of geo dir (tel s) (particles (shower s))")
      case (Inl e)
      with d n have "\<forall>s'. tel s' = tel s \<longrightarrow> shower s' = shower s \<longrightarrow>
          mask_transmitted_particles geo angular_profile args s' = (Inl e, s')"
        by (simp add: mask_transmitted_particles_def)
      then show ?thesis by (intro exI [of _ "Inl e"]) simp
    next
      case a: (Inr angles)
      show ?thesis
      proof (cases "angular_profile angles args")
        case (Inl e)
        with d n a have "\<forall>s'. tel s' = tel s \<longrightarrow> shower s' = shower s \<longrightarrow>
            mask_transmitted_particles geo angular_profile args s' = (Inl e, s')"
          by (simp add: mask_transmitted_particles_def)
        then show ?thesis by (intro exI [of _ "Inl e"]) simp
      next
        case p: (Inr prof)
        show ?thesis
        proof (cases "np_multiply (transmission ds) prof")
          case (Inl e)
          with d n a p have "\<forall>s'. tel s' = tel s \<longrightarrow> shower s' = shower s \<longrightarrow>
              mask_transmitted_particles geo angular_profile args s' = (Inl e, s')"
            by (simp add: mask_transmitted_particles_def)
          then show ?thesis by (intro exI [of _ "Inl e"]) simp
        next
          case m: (Inr p_trans)
          have "\<forall>s'. tel s' = tel s \<longrightarrow> shower s' = shower s \<longrightarrow>
              mask_transmitted_particles geo angular_profile args s' =
                (np_greater p_trans (fst (rand (length (particles (shower s))) (random_state s'))),
                 s'\<lparr>random_state := snd (rand (length (particles (shower s))) (random_state s'))\<rparr>)"
            using d n a p m
            by (simp add: mask_transmitted_particles_def rand_def Let_def split: sum.splits)
          then show ?thesis by (intro exI [of _ "Inr p_trans"]) simp
        qed
      qed
    qed
  qed
qed

lemma mask_transmitted_particles_run:
  assumes "distance_shower_camera_center geo (shower s) (tel s) = Inr ds"
    and "length ds = length (particles (shower s))"
    and "altaz_to_normal geo (alt (shower s)) (az (shower s)) = Inr dir"
    and "angles_of geo dir (tel s) (particles (shower s)) = Inr angles"
    and "angular_profile angles args = Inr prof"
    and "fits (length angles) prof"
  shows "mask_transmitted_particles geo angular_profile args s =
           (Inr (map (\<lambda>i. transmission ds ! i * profile_at prof i > random_state s i)
                   [0..<length (particles (shower s))]),
            s\<lparr>random_state := \<lambda>i. random_state s (length (particles (shower s)) + i)\<rparr>)"
proof -
  let ?n = "length (particles (shower s))"
  let ?p = "map (\<lambda>i. transmission ds ! i * profile_at prof i) [0..<?n]"
  have la: "length angles = ?n" using assms(4) by (rule angles_of_length)
  have lt: "length (transmission ds) = ?n" using assms(2) by (simp add: transmission_def)
  have m: "np_multiply (transmission ds) prof = Inr ?p"
    using np_multiply_fits [of "transmission ds" prof] assms(6) la lt by simp
  have r: "rand ?n (random_state s) =
             (map (random_state s) [0..<?n], \<lambda>i. random_state s (?n + i))"
    by (simp add: rand_def)
  have g: "np_greater ?p (map (random_state s) [0..<?n]) =
             Inr (map (\<lambda>i. transmission ds ! i * profile_at prof i > random_state s i) [0..<?n])"
    using np_greater_same_length [of ?p "map (random_state s) [0..<?n]"] by simp
  show ?thesis
    unfolding mask_transmitted_particles_def assms(1) assms(3) assms(4) assms(5)
      sum.case Let_def m r prod.case g
    by (rule refl)
qed

text \<open>
  C1: when the geometry provider answers (one distance per particle, a direction, an
  angle per particle) and the angular profile returns one value per angle, or a scalar,
  \<open>mask_transmitted_particles\<close> returns a sequence of booleans of the length of
  \<open>shower.particles\<close> whose bit of index \<open>i\<close> is true if and only if the product of
  the transmission and of the profile at \<open>i\<close> strictly exceeds the draw of index \<open>i\<close>.
\<close>

theorem mask_transmitted_particles_bits:
  assumes "distance_shower_camera_center geo (shower s) (tel s) = Inr ds"
    and "length ds = length (particles (shower s))"
    and "altaz_to_normal geo (alt (shower s)) (az (shower s)) = Inr dir"
    and "angles_of geo dir (tel s) (particles (shower s)) = Inr angles"
    and "angular_profile angles args = Inr prof"
    and "fits (length angles) prof"
  shows "\<exists>bits. fst (mask_transmitted_particles geo angular_profile args s) = Inr bits
           \<and> length bits = length (particles (shower s))
           \<and> (\<forall>i < length (particles (shower s)).
                 bits ! i \<longleftrightarrow>
                   transmission ds ! i * profile_at prof i
                     > fst (rand (length (particles (shower s))) (random_state s)) ! i)"
  using mask_transmitted_particles_run [of geo s ds dir angles angular_profile args prof] assms
  by (simp add: rand_fst)

theorem mask_transmitted_particles_bits_witness:
  "\<exists>bits. fst (mask_transmitted_particles
       \<lparr>distance_shower_camera_center = (\<lambda>sh t. Inr (map (\<lambda>p. 1) (particles sh))),
        altaz_to_normal = (\<lambda>a z. Inr (0, 0, 1)),
        angle = (\<lambda>u v. Inr \<bar>fst v\<bar>)\<rparr>
       (\<lambda>angles limit. Inr (Array (map real_of_int (angular_profile_heaviside angles limit))))
       1
       \<lparr>tel = \<lparr>mirror_center = (0, 0, 0), camera_center = (0, 0, 1), normal = (0, 0, 1),
                pixel_tab = [], signal_hist = [], tel_id = 0\<rparr>,
        shower = \<lparr>particles = [(0, 0, 10), (3, 0, 10)], alt = 0, az = 0,
                   impact_point = (0, 0, 0)\<rparr>,
        random_state = (\<lambda>i. 1 / 2)\<rparr>) = Inr bits
     \<and> length bits = 2 \<and> bits ! 0 \<and> \<not> bits ! 1"
  (is "\<exists>bits. fst (mask_transmitted_particles ?G ?P 1 ?S) = Inr bits \<and> _")
proof -
  have h1: "distance_shower_camera_center ?G (shower ?S) (tel ?S) = Inr [1, 1]" by simp
  have h2: "length [1, 1 :: real] = length (particles (shower ?S))" by simp
  have h3: "altaz_to_normal ?G (alt (shower ?S)) (az (shower ?S)) = Inr (0, 0, 1)" by simp
  have h4: "angles_of ?G (0, 0, 1) (tel ?S) (particles (shower ?S)) = Inr [0, 3]" by simp
  have h5: "?P [0, 3] 1 = Inr (Array [1, 0])" by (simp add: angular_profile_heaviside_def)
  have h6: "fits (length [0, 3 :: real]) (Array [1, 0])" by simp
  from mask_transmitted_particles_bits
         [of ?G ?S "[1, 1]" "(0, 0, 1)" "[0, 3]" ?P 1 "Array [1, 0]", OF h1 h2 h3 h4 h5 h6]
  obtain bits where b: "fst (mask_transmitted_particles ?G ?P 1 ?S) = Inr bits"
    and l: "length bits = length (particles (shower ?S))"
    and v: "\<forall>i < length (particles (shower ?S)). bits ! i \<longleftrightarrow>
              transmission [1, 1] ! i * profile_at (Array [1, 0]) i
                > fst (rand (length (particles (shower ?S))) (random_state ?S)) ! i"
    by blast
  from l have "length bits = 2" by simp
  moreover from v [rule_format, of 0] have "bits ! 0"
    by (simp add: transmission_def rand_fst)
  moreover from v [rule_format, of 1] have "\<not> bits ! 1"
    by (simp add: transmission_def rand_fst)
  ultimately show ?thesis using b by blast
qed

text \<open>
  C8: a call of \<open>mask_transmitted_particles\<close>, successful or not, leaves the telescope
  and the shower as they were: every field of both objects is the same after the call.
\<close>

theorem mask_transmitted_particles_frame:
  "tel (snd (mask_transmitted_particles geo angular_profile args s)) = tel s
   \<and> shower (snd (mask_transmitted_particles geo angular_profile args s)) = shower s"
proof -
  from mask_transmitted_particles_shape [of s geo angular_profile args]
  obtain r where "mask_transmitted_particles geo angular_profile args s =
       (case r of
          Inl e \<Rightarrow> (Inl e, s)
        | Inr p_trans \<Rightarrow>
            (np_greater p_trans (fst (rand (length (particles (shower s))) (random_state s))),
             s\<lparr>random_state := snd (rand (length (particles (shower s))) (random_state s))\<rparr>))"
    by blast
  then show ?thesis by (cases r) simp_all
qed

text \<open>
  C9: two runs on the same telescope, shower, angular profile and parameters whose
  generators hand out the same draws for this call return the same result, whatever
  else the two generators would produce afterwards.
\<close>

theorem mask_transmitted_particles_deterministic:
  assumes "tel s1 = tel s2" and "shower s1 = shower s2"
    and "fst (rand (length (particles (shower s1))) (random_state s1))
         = fst (rand (length (particles (shower s2))) (random_state s2))"
  shows "fst (mask_transmitted_particles geo angular_profile args s1)
         = fst (mask_transmitted_particles geo angular_profile args s2)"
proof -
  from mask_transmitted_particles_shape [of s2 geo angular_profile args]
  obtain r where r: "\<And>s'. tel s' = tel s2 \<Longrightarrow> shower s' = shower s2 \<Longrightarrow>
      mask_transmitted_particles geo angular_profile args s' =
       (case r of
          Inl e \<Rightarrow> (Inl e, s')
        | Inr p_trans \<Rightarrow>
            (np_greater p_trans (fst (rand (length (particles (shower s2))) (random_state s'))),
             s'\<lparr>random_state := snd (rand (length (particles (shower s2))) (random_state s'))\<rparr>))"
    by blast
  have r1: "fst (mask_transmitted_particles geo angular_profile args s1) =
      (case r of Inl e \<Rightarrow> Inl e
       | Inr p_trans \<Rightarrow> np_greater p_trans (fst (rand (length (particles (shower s2))) (random_state s1))))"
    using r [of s1] assms(1,2) by (cases r) simp_all
  have r2: "fst (mask_transmitted_particles geo angular_profile args s2) =
      (case r of Inl e \<Rightarrow> Inl e
       | Inr p_trans \<Rightarrow> np_greater p_trans (fst (rand (length (particles (shower s2))) (random_state s2))))"
    using r [of s2] by (cases r) simp_all
  show ?thesis unfolding r1 r2 using assms(2,3) by (cases r) simp_all
qed

theorem mask_transmitted_particles_deterministic_witness:
  "fst (mask_transmitted_particles
       \<lparr>distance_shower_camera_center = (\<lambda>sh t. Inr (map (\<lambda>p. 1) (particles sh))),
        altaz_to_normal = (\<lambda>a z. Inr (0, 0, 1)),
        angle = (\<lambda>u v. Inr \<bar>fst v\<bar>)\<rparr>
       (\<lambda>angles limit. Inr (Array (map real_of_int (angular_profile_heaviside angles limit))))
       1
       \<lparr>tel = \<lparr>mirror_center = (0, 0, 0), camera_center = (0, 0, 1), normal = (0, 0, 1),
                pixel_tab = [], signal_hist = [], tel_id = 0\<rparr>,
        shower = \<lparr>particles = [(0, 0, 10), (3, 0, 10)], alt = 0, az = 0,
                   impact_point = (0, 0, 0)\<rparr>,
        random_state = (\<lambda>i. if i < 2 then 1 / 2 else 0)\<rparr>)
   = fst (mask_transmitted_particles
       \<lparr>distance_shower_camera_center = (\<lambda>sh t. Inr (map (\<lambda>p. 1) (particles sh))),
        altaz_to_normal = (\<lambda>a z. Inr (0, 0, 1)),
        angle = (\<lambda>u v. Inr \<bar>fst v\<bar>)\<rparr>
       (\<lambda>angles limit. Inr (Array (map real_of_int (angular_profile_heaviside angles limit))))
       1
       \<lparr>tel = \<lparr>mirror_center = (0, 0, 0), camera_center = (0, 0, 1), normal = (0, 0, 1),
                pixel_tab = [], signal_hist = [], tel_id = 0\<rparr>,
        shower = \<lparr>particles = [(0, 0, 10), (3, 0, 10)], alt = 0, az = 0,
                   impact_point = (0, 0, 0)\<rparr>,
        random_state = (\<lambda>i. 1 / 2)\<rparr>)"
  (is "fst (mask_transmitted_particles ?G ?P 1 ?S1) = fst (mask_transmitted_particles ?G ?P 1 ?S2)")
proof -
  have h1: "tel ?S1 = tel ?S2" by simp
  have h2: "shower ?S1 = shower ?S2" by simp
  have h3: "fst (rand (length (particles (shower ?S1))) (random_state ?S1))
            = fst (rand (length (particles (shower ?S2))) (random_state ?S2))"
    by (simp add: rand_fst)
  from mask_transmitted_particles_deterministic [of ?S1 ?S2 ?G ?P 1, OF h1 h2 h3]
  show ?thesis .
qed

end
